theory Spec2Isabelle
  imports Complex_Main
begin

section \<open>Strings as the source uses them\<close>

text \<open>
  JavaScript strings are modelled as \<open>string\<close>. The three library methods the source
  calls on strings are written out: \<open>startsWith\<close>, \<open>includes\<close> and \<open>split\<close> with a
  one-character separator.
\<close>

definition starts_with :: "string \<Rightarrow> string \<Rightarrow> bool" where
  "starts_with s p = (take (length p) s = p)"

fun str_includes :: "string \<Rightarrow> string \<Rightarrow> bool" where
  "str_includes [] p = (p = [])"
| "str_includes (c # cs) p = (starts_with (c # cs) p \<or> str_includes cs p)"

text \<open>\<open>s.split(c)\<close>: the pieces between the separators; never an empty array.\<close>

fun split_on :: "char \<Rightarrow> string \<Rightarrow> string list" where
  "split_on c [] = [[]]"
| "split_on c (x # xs) =
     (if x = c then [] # split_on c xs
      else (case split_on c xs of
              [] \<Rightarrow> [[x]]
            | s # ss \<Rightarrow> (x # s) # ss))"

text \<open>\<open>Array.prototype.pop\<close>: the last element, \<open>undefined\<close> on an empty array.\<close>

definition array_pop :: "'a list \<Rightarrow> 'a option" where
  "array_pop xs = (if xs = [] then None else Some (last xs))"

text \<open>
  \<open>toLowerCase\<close> on the characters a URL path can hold: the path of a parsed URL is
  serialised in ASCII (everything else is percent-encoded), so only \<open>A\<close> to \<open>Z\<close> change.
\<close>

definition lower_char :: "char \<Rightarrow> char" where
  "lower_char c =
     (let n = (of_char c :: nat) in if 65 \<le> n \<and> n \<le> 90 then char_of (n + 32) else c)"

definition toLowerCase :: "string \<Rightarrow> string" where
  "toLowerCase s = map lower_char s"

section \<open>The image URL normaliser of the menu card (src/components/MenuCard.tsx)\<close>

text \<open>The fields of \<open>appwriteConfig\<close> that the source reads.\<close>

record appwrite_config =
  endpoint :: string
  projectId :: string
  bucketId :: string

definition getImageUrl :: "appwrite_config \<Rightarrow> string \<Rightarrow> string" where
  "getImageUrl cfg url =
     (if url = [] then []
      else if starts_with url ''http://'' \<or> starts_with url ''https://'' then url
      else if str_includes url ''/storage/buckets/'' then url @ ''?project='' @ projectId cfg
      else if length url > 0 \<and> \<not> str_includes url ''/'' then
        endpoint cfg @ ''/storage/buckets/'' @ bucketId cfg @ ''/files/'' @ url
          @ ''/view?project='' @ projectId cfg
      else url @ ''?project='' @ projectId cfg)"

text \<open>
  What the card shows in its image slot: the \<open>Image\<close> element on the normalised URL, or
  the placeholder view with the glyph. \<open>imageError\<close> is the component's state flag, set
  by the image's \<open>onError\<close> handler.
\<close>

datatype card_image = ImageElement string | PlaceholderGlyph

definition menu_card_image :: "appwrite_config \<Rightarrow> string \<Rightarrow> bool \<Rightarrow> card_image" where
  "menu_card_image cfg image_url imageError =
     (let imageUrl = getImageUrl cfg image_url
      in if imageUrl \<noteq> [] \<and> \<not> imageError then ImageElement imageUrl else PlaceholderGlyph)"

text \<open>
  A network scheme as the specification means it for an image reference: the prefix
  \<open>http://\<close> or \<open>https://\<close>.
\<close>

definition has_network_scheme :: "string \<Rightarrow> bool" where
  "has_network_scheme url = (starts_with url ''http://'' \<or> starts_with url ''https://'')"

text \<open>
  The normaliser as the specification words it, case by case and in its order: a value
  with a full network scheme passes through; a managed-storage view path that lacks the
  project parameter gets it appended; a bare file identifier (no path separator) becomes
  the full view URL; anything else gets the parameter appended.
\<close>

definition getImageUrl_spec :: "appwrite_config \<Rightarrow> string \<Rightarrow> string" where
  "getImageUrl_spec cfg url =
     (if has_network_scheme url then url
      else if str_includes url ''/storage/buckets/'' \<and> \<not> str_includes url ''?project=''
        then url @ ''?project='' @ projectId cfg
      else if CHR ''/'' \<notin> set url then
        endpoint cfg @ ''/storage/buckets/'' @ bucketId cfg @ ''/files/'' @ url
          @ ''/view?project='' @ projectId cfg
      else url @ ''?project='' @ projectId cfg)"

definition example_config :: appwrite_config where
  "example_config =
     \<lparr>endpoint = ''https://cloud.appwrite.io/v1'', projectId = ''proj'', bucketId = ''bkt''\<rparr>"

section \<open>The file extension of an uploaded image (seed script, lines 106 to 107)\<close>

text \<open>
  \<open>urlPath.split('.').pop()?.toLowerCase() || 'jpg'\<close>: the default is taken when the
  popped piece is \<open>undefined\<close> or the empty string.
\<close>

definition file_extension :: "string \<Rightarrow> string" where
  "file_extension urlPath =
     (case array_pop (split_on (CHR ''.'') urlPath) of
        None \<Rightarrow> ''jpg''
      | Some piece \<Rightarrow> (if toLowerCase piece = [] then ''jpg'' else toLowerCase piece))"

section \<open>The seed script: data\<close>

text \<open>
  The dataset of \<open>./data\<close>, typed by the interfaces \<open>Category\<close>, \<open>Customization\<close>,
  \<open>MenuItem\<close> and \<open>DummyData\<close>. The \<open>number\<close> fields are only copied into documents,
  never computed with.
\<close>

record category =
  cat_name :: string
  cat_description :: string

record customization =
  cus_name :: string
  cus_price :: real
  cus_type :: string

record menu_item =
  item_name :: string
  item_description :: string
  image_url :: string
  item_price :: real
  rating :: real
  calories :: real
  protein :: real
  category_name :: string
  item_customizations :: "string list"

record dummy_data =
  data_categories :: "category list"
  data_customizations :: "customization list"
  data_menu :: "menu_item list"

subsection \<open>Lookup tables: plain JavaScript objects\<close>

text \<open>
  \<open>categoryMap\<close>, \<open>customizationMap\<close> and \<open>menuMap\<close> are object literals \<open>{}\<close> indexed
  by name. Reading \<open>obj[key]\<close> yields the own property when there is one, and otherwise
  what the object inherits from \<open>Object.prototype\<close> under that key, which is a function
  or an object and therefore truthy; only when neither exists is the result
  \<open>undefined\<close>. Writing \<open>obj[key] = id\<close> creates or overwrites the own property, except
  under the key \<open>__proto__\<close>, whose inherited setter ignores a string. The own
  properties are kept as a list of distinct keys; the script reads only their number
  (\<open>Object.keys(obj).length\<close>, in the summary).

  A document identifier is assigned by the remote store and is a non-empty string, so
  it is truthy; it is modelled by the number the store draws it from.
\<close>

type_synonym doc_id = nat

datatype js_value = Undefined | IdString doc_id | Inherited string

type_synonym js_object = "(string \<times> doc_id) list"

definition object_prototype_names :: "string list" where
  "object_prototype_names =
     [''constructor'', ''__defineGetter__'', ''__defineSetter__'', ''hasOwnProperty'',
      ''__lookupGetter__'', ''__lookupSetter__'', ''isPrototypeOf'',
      ''propertyIsEnumerable'', ''toString'', ''valueOf'', ''__proto__'',
      ''toLocaleString'']"

definition js_get :: "js_object \<Rightarrow> string \<Rightarrow> js_value" where
  "js_get obj key =
     (case map_of obj key of
        Some v \<Rightarrow> IdString v
      | None \<Rightarrow> if key \<in> set object_prototype_names then Inherited key else Undefined)"

fun own_update :: "string \<Rightarrow> doc_id \<Rightarrow> js_object \<Rightarrow> js_object" where
  "own_update key v [] = [(key, v)]"
| "own_update key v (p # ps) =
     (if fst p = key then (key, v) # ps else p # own_update key v ps)"

definition js_set :: "js_object \<Rightarrow> string \<Rightarrow> doc_id \<Rightarrow> js_object" where
  "js_set obj key v = (if key = ''__proto__'' then obj else own_update key v obj)"

fun truthy :: "js_value \<Rightarrow> bool" where
  "truthy Undefined = False"
| "truthy (IdString i) = True"
| "truthy (Inherited k) = True"

subsection \<open>The remote store, the network and the console\<close>

text \<open>
  The four collections are named by four configuration identifiers, taken to be
  distinct. A document is the field set passed to \<open>createDocument\<close>.
\<close>

datatype collection =
  CategoriesCollection | CustomizationsCollection | MenuCollection
  | MenuCustomizationsCollection

datatype document =
  CategoryDocument category
  | CustomizationDocument string real string
  | MenuDocument string string string real real real real js_value
  | MenuCustomizationDocument doc_id js_value

datatype permission = ReadAny | WriteAny

record file_object =
  file_name :: string
  file_type :: string
  file_size :: nat
  file_uri :: string

record blob =
  blob_size :: nat
  blob_type :: string

text \<open>
  Every request the script makes of the outside, and each wait. The world keeps them in
  the order issued, each with its outcome: \<open>True\<close> when the promise was fulfilled,
  \<open>False\<close> when it was rejected.
\<close>

datatype call =
  ListDocuments collection
  | DeleteDocument collection doc_id
  | ListFiles
  | DeleteFile doc_id
  | Fetch string
  | CreateFile file_object "permission list"
  | CreateDocument collection document
  | Sleep nat

text \<open>
  What \<open>fetch\<close> can do: reject (network failure, or the abort after 30 seconds), or
  resolve to a response with its \<open>ok\<close> flag, status, status text and body; the body is
  \<open>None\<close> when \<open>response.blob()\<close> rejects.
\<close>

datatype fetch_outcome = FetchRejected | FetchResponse bool nat string "blob option"

datatype error =
  InvalidImageUrl string
  | HttpError nat string
  | BlobFailed
  | EmptyImageData
  | InvalidURL string
  | CallFailed call
  | CategoryNotFound string

text \<open>
  The outside world is a parameter. A request's outcome may depend on when it is made:
  the first argument of the oracles is the number of calls issued before it.
  \<open>url_pathname\<close> is \<open>new URL(u).pathname\<close> (\<open>None\<close> when the constructor throws),
  \<open>date_now\<close> and \<open>random_chars\<close> are \<open>Date.now()\<close> and
  \<open>Math.random().toString(36).substr(2, 9)\<close>, and \<open>file_view_url\<close> is the string of
  \<open>storage.getFileView\<close> for a stored file.
\<close>

record environment =
  remote_ok :: "nat \<Rightarrow> call \<Rightarrow> bool"
  fetch_outcome_at :: "nat \<Rightarrow> string \<Rightarrow> fetch_outcome"
  url_pathname :: "string \<Rightarrow> string option"
  date_now :: "nat \<Rightarrow> nat"
  random_chars :: "nat \<Rightarrow> string"
  file_view_url :: "doc_id \<Rightarrow> string"

datatype level = LogLevel | WarnLevel | ErrorLevel

datatype message =
  ClearedCollection collection
  | ErrorClearingCollection collection error
  | ClearedStorage
  | ErrorClearingStorage error
  | UploadingImage nat nat string
  | FileInfo string string nat
  | ImageUploaded string
  | UploadAttemptFailed nat error
  | AllUploadAttemptsFailed string
  | UsingOriginalUrl string
  | WaitingBeforeRetry nat
  | StartingSeeding
  | ClearingExistingData
  | CreatingCategories
  | CategoryCreated string
  | FailedToCreateCategory string error
  | CreatingCustomizations
  | CustomizationCreated string
  | FailedToCreateCustomization string error
  | CreatingMenuItems
  | ProcessingMenuItem nat nat string
  | MenuItemCreated string
  | AddingCustomizations string
  | CustomizationNotFound string
  | MenuCustomizationLinked string string
  | FailedToCreateMenuCustomization string error
  | FailedToCreateMenuItem string error
  | SeedingCompleted
  | SummaryHeader
  | CategoriesCount nat
  | CustomizationsCount nat
  | MenuItemsCount nat
  | SeedingFailed error

record world =
  documents :: "collection \<Rightarrow> (doc_id \<times> document) list"
  files :: "(doc_id \<times> file_object \<times> permission list) list"
  next_id :: nat
  calls :: "(call \<times> bool) list"
  console :: "(level \<times> message) list"

definition say :: "level \<Rightarrow> message \<Rightarrow> world \<Rightarrow> world" where
  "say l m w = w\<lparr>console := console w @ [(l, m)]\<rparr>"

definition issue :: "call \<Rightarrow> bool \<Rightarrow> world \<Rightarrow> world" where
  "issue c fulfilled w = w\<lparr>calls := calls w @ [(c, fulfilled)]\<rparr>"

definition tick :: "world \<Rightarrow> nat" where
  "tick w = length (calls w)"

subsection \<open>The operations of the remote store\<close>

text \<open>
  Modelled from the spec: the SDK objects \<open>databases\<close> and \<open>storage\<close> (module
  \<open>./appwrite\<close>) are not among the sources. The specification describes them as a
  generic document-and-file store with list, create and delete operations, whose
  identifiers the store assigns at creation. Each operation is issued as a call; the
  environment decides whether it succeeds; a successful one has its effect on the
  store, a failed one has none and rejects.
\<close>

definition listDocuments ::
  "environment \<Rightarrow> collection \<Rightarrow> world \<Rightarrow> (error + doc_id list) \<times> world" where
  "listDocuments env coll w =
     (let c = ListDocuments coll
      in if remote_ok env (tick w) c then (Inr (map fst (documents w coll)), issue c True w)
         else (Inl (CallFailed c), issue c False w))"

definition deleteDocument ::
  "environment \<Rightarrow> collection \<Rightarrow> doc_id \<Rightarrow> world \<Rightarrow> (error + unit) \<times> world" where
  "deleteDocument env coll i w =
     (let c = DeleteDocument coll i
      in if remote_ok env (tick w) c then
           (Inr (),
            issue c True (w\<lparr>documents :=
              (documents w)(coll := filter (\<lambda>d. fst d \<noteq> i) (documents w coll))\<rparr>))
         else (Inl (CallFailed c), issue c False w))"

definition createDocument ::
  "environment \<Rightarrow> collection \<Rightarrow> document \<Rightarrow> world \<Rightarrow> (error + doc_id) \<times> world" where
  "createDocument env coll payload w =
     (let c = CreateDocument coll payload
      in if remote_ok env (tick w) c then
           (Inr (next_id w),
            issue c True (w\<lparr>documents :=
                (documents w)(coll := documents w coll @ [(next_id w, payload)]),
              next_id := Suc (next_id w)\<rparr>))
         else (Inl (CallFailed c), issue c False w))"

definition listFiles :: "environment \<Rightarrow> world \<Rightarrow> (error + doc_id list) \<times> world" where
  "listFiles env w =
     (if remote_ok env (tick w) ListFiles then (Inr (map fst (files w)), issue ListFiles True w)
      else (Inl (CallFailed ListFiles), issue ListFiles False w))"

definition deleteFile :: "environment \<Rightarrow> doc_id \<Rightarrow> world \<Rightarrow> (error + unit) \<times> world" where
  "deleteFile env i w =
     (let c = DeleteFile i
      in if remote_ok env (tick w) c then
           (Inr (), issue c True (w\<lparr>files := filter (\<lambda>f. fst f \<noteq> i) (files w)\<rparr>))
         else (Inl (CallFailed c), issue c False w))"

definition createFile ::
  "environment \<Rightarrow> file_object \<Rightarrow> permission list \<Rightarrow> world \<Rightarrow> (error + doc_id) \<times> world" where
  "createFile env fileObj perms w =
     (let c = CreateFile fileObj perms
      in if remote_ok env (tick w) c then
           (Inr (next_id w),
            issue c True (w\<lparr>files := files w @ [(next_id w, fileObj, perms)],
              next_id := Suc (next_id w)\<rparr>))
         else (Inl (CallFailed c), issue c False w))"

section \<open>The seed script: clearing\<close>

text \<open>
  \<open>Promise.all(list.map(delete))\<close>: \<open>map\<close> issues every deletion, in list order, before
  any outcome is looked at, so a deletion that fails stops none of the others. The
  promise fulfils when all have, and rejects when one does. The model runs every
  deletion, collects the rejections, and \<open>promise_all\<close> rejects with the first in list
  order (which rejection comes first in time is not determined by the script).
\<close>

fun delete_documents ::
  "environment \<Rightarrow> collection \<Rightarrow> doc_id list \<Rightarrow> world \<Rightarrow> error list \<times> world" where
  "delete_documents env coll [] w = ([], w)"
| "delete_documents env coll (i # ids) w =
     (case deleteDocument env coll i w of
        (Inl e, w1) \<Rightarrow>
          (case delete_documents env coll ids w1 of (es, w2) \<Rightarrow> (e # es, w2))
      | (Inr u, w1) \<Rightarrow> delete_documents env coll ids w1)"

fun delete_files :: "environment \<Rightarrow> doc_id list \<Rightarrow> world \<Rightarrow> error list \<times> world" where
  "delete_files env [] w = ([], w)"
| "delete_files env (i # ids) w =
     (case deleteFile env i w of
        (Inl e, w1) \<Rightarrow> (case delete_files env ids w1 of (es, w2) \<Rightarrow> (e # es, w2))
      | (Inr u, w1) \<Rightarrow> delete_files env ids w1)"

definition promise_all :: "error list \<Rightarrow> error + unit" where
  "promise_all rejections = (case rejections of [] \<Rightarrow> Inr () | e # es \<Rightarrow> Inl e)"

definition clearAll :: "environment \<Rightarrow> collection \<Rightarrow> world \<Rightarrow> (error + unit) \<times> world" where
  "clearAll env collectionId w =
     (case listDocuments env collectionId w of
        (Inl e, w1) \<Rightarrow> (Inl e, say ErrorLevel (ErrorClearingCollection collectionId e) w1)
      | (Inr list, w1) \<Rightarrow>
          (case delete_documents env collectionId list w1 of
             (rejections, w2) \<Rightarrow>
               (case promise_all rejections of
                  Inl e \<Rightarrow> (Inl e, say ErrorLevel (ErrorClearingCollection collectionId e) w2)
                | Inr u \<Rightarrow> (Inr (), say LogLevel (ClearedCollection collectionId) w2))))"

definition clearStorage :: "environment \<Rightarrow> world \<Rightarrow> (error + unit) \<times> world" where
  "clearStorage env w =
     (case listFiles env w of
        (Inl e, w1) \<Rightarrow> (Inl e, say ErrorLevel (ErrorClearingStorage e) w1)
      | (Inr list, w1) \<Rightarrow>
          (case delete_files env list w1 of
             (rejections, w2) \<Rightarrow>
               (case promise_all rejections of
                  Inl e \<Rightarrow> (Inl e, say ErrorLevel (ErrorClearingStorage e) w2)
                | Inr u \<Rightarrow> (Inr (), say LogLevel ClearedStorage w2))))"

section \<open>The seed script: image upload\<close>

text \<open>A number in a template string: its decimal digits.\<close>

definition digit_char :: "nat \<Rightarrow> char" where
  "digit_char d = ''0123456789'' ! d"

fun decimal :: "nat \<Rightarrow> string" where
  "decimal n =
     (if n < 10 then [digit_char n] else decimal (n div 10) @ [digit_char (n mod 10)])"

text \<open>
  The body of the \<open>try\<close> block of one attempt: \<open>Inl\<close> is the error thrown in it,
  \<open>Inr\<close> the view URL returned from it.
\<close>

definition upload_attempt ::
  "environment \<Rightarrow> string \<Rightarrow> nat \<Rightarrow> nat \<Rightarrow> world \<Rightarrow> (error + string) \<times> world" where
  "upload_attempt env imageUrl attempt retries w0 =
     (let w1 = say LogLevel (UploadingImage attempt retries imageUrl) w0
      in if imageUrl = [] \<or> \<not> starts_with imageUrl ''http'' then
           (Inl (InvalidImageUrl imageUrl), w1)
         else
           (let outcome = fetch_outcome_at env (tick w1) imageUrl;
                w2 = issue (Fetch imageUrl) (outcome \<noteq> FetchRejected) w1
            in case outcome of
                 FetchRejected \<Rightarrow> (Inl (CallFailed (Fetch imageUrl)), w2)
               | FetchResponse ok status statusText body \<Rightarrow>
                   if \<not> ok then (Inl (HttpError status statusText), w2)
                   else
                     (case body of
                        None \<Rightarrow> (Inl BlobFailed, w2)
                      | Some b \<Rightarrow>
                          if blob_size b = 0 then (Inl EmptyImageData, w2)
                          else
                            (case url_pathname env imageUrl of
                               None \<Rightarrow> (Inl (InvalidURL imageUrl), w2)
                             | Some urlPath \<Rightarrow>
                                 (let extension = file_extension urlPath;
                                      filename = decimal (date_now env (tick w2)) @ ''-''
                                        @ random_chars env (tick w2) @ ''.'' @ extension;
                                      fileObj = \<lparr>file_name = filename,
                                        file_type = (if blob_type b = [] then ''image/jpeg''
                                                     else blob_type b),
                                        file_size = blob_size b,
                                        file_uri = imageUrl\<rparr>;
                                      w3 = say LogLevel (FileInfo filename (file_type fileObj)
                                             (file_size fileObj)) w2
                                  in case createFile env fileObj [ReadAny, WriteAny] w3 of
                                       (Inl e, w4) \<Rightarrow> (Inl e, w4)
                                     | (Inr fileId, w4) \<Rightarrow>
                                         (Inr (file_view_url env fileId),
                                          say LogLevel (ImageUploaded filename) w4))))))"

text \<open>
  The \<open>for\<close> loop over the attempts, with the \<open>catch\<close> block: the last attempt's failure
  returns the original URL, an earlier one waits \<open>2 ^ attempt * 1000\<close> milliseconds.
\<close>

function upload_loop ::
  "environment \<Rightarrow> string \<Rightarrow> nat \<Rightarrow> nat \<Rightarrow> world \<Rightarrow> string \<times> world" where
  "upload_loop env imageUrl retries attempt w =
     (if attempt \<le> retries then
        (case upload_attempt env imageUrl attempt retries w of
           (Inr viewUrl, w1) \<Rightarrow> (viewUrl, w1)
         | (Inl e, w1) \<Rightarrow>
             (let w2 = say ErrorLevel (UploadAttemptFailed attempt e) w1
              in if attempt = retries then
                   (imageUrl,
                    say LogLevel (UsingOriginalUrl imageUrl)
                      (say ErrorLevel (AllUploadAttemptsFailed imageUrl) w2))
                 else
                   (let delay = 2 ^ attempt * 1000;
                        w3 = say LogLevel (WaitingBeforeRetry delay) w2
                    in upload_loop env imageUrl retries (attempt + 1) (issue (Sleep delay) True w3))))
      else (imageUrl, w))"
  by pat_completeness auto
termination
  by (relation "measure (\<lambda>(env, imageUrl, retries, attempt, w). Suc retries - attempt)") auto

definition uploadImageToStorage ::
  "environment \<Rightarrow> string \<Rightarrow> nat \<Rightarrow> world \<Rightarrow> string \<times> world" where
  "uploadImageToStorage env imageUrl retries w = upload_loop env imageUrl retries 1 w"

declare upload_loop.simps [simp del]

declare decimal.simps [simp del]

section \<open>The seed script: creating the records\<close>

text \<open>The loops of phases 2 and 3, with the lookup table as accumulator.\<close>

fun create_categories ::
  "environment \<Rightarrow> category list \<Rightarrow> js_object \<Rightarrow> world \<Rightarrow> (error + js_object) \<times> world" where
  "create_categories env [] categoryMap w = (Inr categoryMap, w)"
| "create_categories env (cat # cats) categoryMap w =
     (case createDocument env CategoriesCollection (CategoryDocument cat) w of
        (Inl e, w1) \<Rightarrow>
          (Inl e, say ErrorLevel (FailedToCreateCategory (cat_name cat) e) w1)
      | (Inr docId, w1) \<Rightarrow>
          create_categories env cats (js_set categoryMap (cat_name cat) docId)
            (say LogLevel (CategoryCreated (cat_name cat)) w1))"

fun create_customizations ::
  "environment \<Rightarrow> customization list \<Rightarrow> js_object \<Rightarrow> world
     \<Rightarrow> (error + js_object) \<times> world" where
  "create_customizations env [] customizationMap w = (Inr customizationMap, w)"
| "create_customizations env (cus # cuss) customizationMap w =
     (case createDocument env CustomizationsCollection
             (CustomizationDocument (cus_name cus) (cus_price cus) (cus_type cus)) w of
        (Inl e, w1) \<Rightarrow>
          (Inl e, say ErrorLevel (FailedToCreateCustomization (cus_name cus) e) w1)
      | (Inr docId, w1) \<Rightarrow>
          create_customizations env cuss (js_set customizationMap (cus_name cus) docId)
            (say LogLevel (CustomizationCreated (cus_name cus)) w1))"

text \<open>
  The loop over \<open>item.customizations\<close> (step 5). Its \<open>try\<close>/\<open>catch\<close> swallows the
  failure of a join record's creation; a name the table does not resolve is skipped
  with a warning.
\<close>

fun link_customizations ::
  "environment \<Rightarrow> js_object \<Rightarrow> string \<Rightarrow> doc_id \<Rightarrow> string list \<Rightarrow> world \<Rightarrow> world" where
  "link_customizations env customizationMap itemName docId [] w = w"
| "link_customizations env customizationMap itemName docId (cusName # rest) w =
     (if \<not> truthy (js_get customizationMap cusName) then
        link_customizations env customizationMap itemName docId rest
          (say WarnLevel (CustomizationNotFound cusName) w)
      else
        (case createDocument env MenuCustomizationsCollection
                (MenuCustomizationDocument docId (js_get customizationMap cusName)) w of
           (Inr linkId, w1) \<Rightarrow>
             link_customizations env customizationMap itemName docId rest
               (say LogLevel (MenuCustomizationLinked itemName cusName) w1)
         | (Inl e, w1) \<Rightarrow>
             link_customizations env customizationMap itemName docId rest
               (say ErrorLevel (FailedToCreateMenuCustomization cusName e) w1)))"

text \<open>The \<open>try\<close> block of one menu item; the result is the updated \<open>menuMap\<close>.\<close>

definition menu_item_try ::
  "environment \<Rightarrow> js_object \<Rightarrow> js_object \<Rightarrow> js_object \<Rightarrow> menu_item \<Rightarrow> world
     \<Rightarrow> (error + js_object) \<times> world" where
  "menu_item_try env categoryMap customizationMap menuMap item w =
     (case uploadImageToStorage env (image_url item) 3 w of
        (uploadedImageUrl, w1) \<Rightarrow>
          if \<not> truthy (js_get categoryMap (category_name item)) then
            (Inl (CategoryNotFound (category_name item)), w1)
          else
            (case createDocument env MenuCollection
                    (MenuDocument (item_name item) (item_description item) uploadedImageUrl
                       (item_price item) (rating item) (calories item) (protein item)
                       (js_get categoryMap (category_name item))) w1 of
               (Inl e, w2) \<Rightarrow> (Inl e, w2)
             | (Inr docId, w2) \<Rightarrow>
                 (let w3 = say LogLevel (MenuItemCreated (item_name item)) w2
                  in if item_customizations item \<noteq> [] then
                       (Inr (js_set menuMap (item_name item) docId),
                        link_customizations env customizationMap (item_name item) docId
                          (item_customizations item)
                          (say LogLevel (AddingCustomizations (item_name item)) w3))
                     else (Inr (js_set menuMap (item_name item) docId), w3))))"

text \<open>One round of the menu loop: the log line, the \<open>try\<close> block and its \<open>catch\<close>.\<close>

definition seed_menu_item ::
  "environment \<Rightarrow> js_object \<Rightarrow> js_object \<Rightarrow> js_object \<Rightarrow> nat \<Rightarrow> nat \<Rightarrow> menu_item \<Rightarrow> world
     \<Rightarrow> (error + js_object) \<times> world" where
  "seed_menu_item env categoryMap customizationMap menuMap i n item w =
     (case menu_item_try env categoryMap customizationMap menuMap item
             (say LogLevel (ProcessingMenuItem (i + 1) n (item_name item)) w) of
        (Inl e, w1) \<Rightarrow> (Inl e, say ErrorLevel (FailedToCreateMenuItem (item_name item) e) w1)
      | (Inr menuMap', w1) \<Rightarrow> (Inr menuMap', w1))"

fun create_menu_items ::
  "environment \<Rightarrow> js_object \<Rightarrow> js_object \<Rightarrow> nat \<Rightarrow> nat \<Rightarrow> menu_item list \<Rightarrow> js_object
     \<Rightarrow> world \<Rightarrow> (error + js_object) \<times> world" where
  "create_menu_items env categoryMap customizationMap i n [] menuMap w = (Inr menuMap, w)"
| "create_menu_items env categoryMap customizationMap i n (item # items) menuMap w =
     (case seed_menu_item env categoryMap customizationMap menuMap i n item w of
        (Inl e, w1) \<Rightarrow> (Inl e, w1)
      | (Inr menuMap', w1) \<Rightarrow>
          create_menu_items env categoryMap customizationMap (i + 1) n items menuMap' w1)"

section \<open>The seed script: the run\<close>

text \<open>The outer \<open>try\<close> block of \<open>seed\<close>.\<close>

definition seed_try :: "environment \<Rightarrow> dummy_data \<Rightarrow> world \<Rightarrow> (error + unit) \<times> world" where
  "seed_try env d w =
     (case clearAll env CategoriesCollection
             (say LogLevel ClearingExistingData (say LogLevel StartingSeeding w)) of
        (Inl e, w1) \<Rightarrow> (Inl e, w1)
      | (Inr u1, w1) \<Rightarrow>
     (case clearAll env CustomizationsCollection w1 of
        (Inl e, w2) \<Rightarrow> (Inl e, w2)
      | (Inr u2, w2) \<Rightarrow>
     (case clearAll env MenuCollection w2 of
        (Inl e, w3) \<Rightarrow> (Inl e, w3)
      | (Inr u3, w3) \<Rightarrow>
     (case clearAll env MenuCustomizationsCollection w3 of
        (Inl e, w4) \<Rightarrow> (Inl e, w4)
      | (Inr u4, w4) \<Rightarrow>
     (case clearStorage env w4 of
        (Inl e, w5) \<Rightarrow> (Inl e, w5)
      | (Inr u5, w5) \<Rightarrow>
     (case create_categories env (data_categories d) [] (say LogLevel CreatingCategories w5) of
        (Inl e, w6) \<Rightarrow> (Inl e, w6)
      | (Inr categoryMap, w6) \<Rightarrow>
     (case create_customizations env (data_customizations d) []
             (say LogLevel CreatingCustomizations w6) of
        (Inl e, w7) \<Rightarrow> (Inl e, w7)
      | (Inr customizationMap, w7) \<Rightarrow>
     (case create_menu_items env categoryMap customizationMap 0 (length (data_menu d))
             (data_menu d) [] (say LogLevel CreatingMenuItems w7) of
        (Inl e, w8) \<Rightarrow> (Inl e, w8)
      | (Inr menuMap, w8) \<Rightarrow>
          (Inr (),
           say LogLevel (MenuItemsCount (length menuMap))
             (say LogLevel (CustomizationsCount (length customizationMap))
               (say LogLevel (CategoriesCount (length categoryMap))
                 (say LogLevel SummaryHeader (say LogLevel SeedingCompleted w8)))))))))))))"

definition seed :: "environment \<Rightarrow> dummy_data \<Rightarrow> world \<Rightarrow> (error + unit) \<times> world" where
  "seed env d w =
     (case seed_try env d w of
        (Inl e, w1) \<Rightarrow> (Inl e, say ErrorLevel (SeedingFailed e) w1)
      | (Inr u, w1) \<Rightarrow> (Inr (), w1))"

section \<open>Example environments and datasets\<close>

text \<open>
  The pathname of a plain \<open>http\<close> or \<open>https\<close> URL (no credentials, no dot segments, no
  character that the parser would escape): what follows the authority, up to the query
  or fragment, and \<open>/\<close> when that is empty. Other strings are rejected.
\<close>

definition simple_pathname :: "string \<Rightarrow> string option" where
  "simple_pathname u =
     (let rest = (if starts_with u ''http://'' then Some (drop 7 u)
                  else if starts_with u ''https://'' then Some (drop 8 u)
                  else None)
      in case rest of
           None \<Rightarrow> None
         | Some r \<Rightarrow>
             (let after = dropWhile (\<lambda>c. c \<notin> set ''/?#'') r;
                  path = takeWhile (\<lambda>c. c \<notin> set ''?#'') after
              in if takeWhile (\<lambda>c. c \<notin> set ''/?#'') r = [] then None
                 else Some (if path = [] then ''/'' else path)))"

text \<open>A store that never fails and a host that serves every image.\<close>

definition reliable_env :: environment where
  "reliable_env =
     \<lparr>remote_ok = (\<lambda>t c. True),
      fetch_outcome_at =
        (\<lambda>t u. FetchResponse True 200 ''OK'' (Some \<lparr>blob_size = 2048, blob_type = ''image/png''\<rparr>)),
      url_pathname = simple_pathname,
      date_now = (\<lambda>t. 1700 + t),
      random_chars = (\<lambda>t. ''k3x9q0zab''),
      file_view_url = (\<lambda>i. ''https://store.io/files/'' @ decimal i @ ''/view'')\<rparr>"

text \<open>The same store behind a host that answers every fetch with status 404.\<close>

definition not_found_env :: environment where
  "not_found_env =
     reliable_env\<lparr>fetch_outcome_at := (\<lambda>t u. FetchResponse False 404 ''Not Found'' None)\<rparr>"


definition empty_world :: world where
  "empty_world =
     \<lparr>documents = (\<lambda>coll. []), files = [], next_id = 0, calls = [], console = []\<rparr>"

text \<open>A host that cannot be reached: every fetch rejects.\<close>

definition unreachable_env :: environment where
  "unreachable_env = reliable_env\<lparr>fetch_outcome_at := (\<lambda>t u. FetchRejected)\<rparr>"

section \<open>Observations on a run\<close>

text \<open>What a step added to the trace of calls.\<close>

definition new_calls :: "world \<Rightarrow> world \<Rightarrow> (call \<times> bool) list" where
  "new_calls w w' = drop (length (calls w)) (calls w')"

fun is_sleep :: "call \<Rightarrow> bool" where
  "is_sleep (Sleep ms) = True"
| "is_sleep c = False"

text \<open>The calls an upload attempt can make: the fetch and the file creation.\<close>

fun upload_call :: "call \<Rightarrow> bool" where
  "upload_call (Fetch u) = True"
| "upload_call (CreateFile f p) = True"
| "upload_call c = False"

text \<open>Example datasets.\<close>

definition margherita :: menu_item where
  "margherita =
     \<lparr>item_name = ''Margherita'', item_description = ''Classic'',
      image_url = ''https://img.io/m.png'', item_price = 9, rating = 4,
      calories = 800, protein = 30, category_name = ''Pizzas'',
      item_customizations = [''Extra Cheese'']\<rparr>"

definition pizzas :: category where
  "pizzas = \<lparr>cat_name = ''Pizzas'', cat_description = ''Oven baked''\<rparr>"

definition extra_cheese :: customization where
  "extra_cheese = \<lparr>cus_name = ''Extra Cheese'', cus_price = 2, cus_type = ''topping''\<rparr>"

text \<open>The same item without an image reference.\<close>

definition plain_margherita :: menu_item where
  "plain_margherita = margherita\<lparr>image_url := []\<rparr>"

definition small_data :: dummy_data where
  "small_data =
     \<lparr>data_categories = [pizzas], data_customizations = [extra_cheese],
      data_menu = [plain_margherita]\<rparr>"

text \<open>The same dataset, with the item filed under a category that was never created.\<close>

definition constructor_data :: dummy_data where
  "constructor_data =
     small_data\<lparr>data_menu := [plain_margherita\<lparr>category_name := ''constructor''\<rparr>]\<rparr>"

text \<open>
  The item with its image reference, filed under the category that was never created.
\<close>

definition constructor_image_data :: dummy_data where
  "constructor_image_data =
     small_data\<lparr>data_menu := [margherita\<lparr>category_name := ''constructor''\<rparr>]\<rparr>"

text \<open>The same dataset, with the item listing a customization that does not exist.\<close>

definition toString_data :: dummy_data where
  "toString_data =
     small_data\<lparr>data_menu :=
       [plain_margherita\<lparr>item_customizations := [''toString'', ''Extra Cheese'']\<rparr>]\<rparr>"





text \<open>
  The step of the run that a call belongs to: the clearing of the four collections in
  the order of the script (0 to 3), the clearing of the bucket (4), the category phase
  (5), the customization phase (6) and the menu phase (7).
\<close>

fun collection_index :: "collection \<Rightarrow> nat" where
  "collection_index CategoriesCollection = 0"
| "collection_index CustomizationsCollection = 1"
| "collection_index MenuCollection = 2"
| "collection_index MenuCustomizationsCollection = 3"

fun phase_of :: "call \<Rightarrow> nat" where
  "phase_of (ListDocuments c) = collection_index c"
| "phase_of (DeleteDocument c i) = collection_index c"
| "phase_of ListFiles = 4"
| "phase_of (DeleteFile i) = 4"
| "phase_of (CreateDocument c doc) =
     (case c of CategoriesCollection \<Rightarrow> 5 | CustomizationsCollection \<Rightarrow> 6
      | MenuCollection \<Rightarrow> 7 | MenuCustomizationsCollection \<Rightarrow> 7)"
| "phase_of (Fetch u) = 7"
| "phase_of (CreateFile f p) = 7"
| "phase_of (Sleep ms) = 7"

text \<open>
  The calls whose rejection the script rethrows up to the caller of \<open>seed\<close>. The
  rejections of a fetch and of a file creation are caught by the upload routine, that
  of a join record's creation by the innermost \<open>catch\<close>.
\<close>

fun fatal :: "call \<Rightarrow> bool" where
  "fatal (ListDocuments c) = True"
| "fatal (DeleteDocument c i) = True"
| "fatal ListFiles = True"
| "fatal (DeleteFile i) = True"
| "fatal (CreateDocument c doc) = (c \<noteq> MenuCustomizationsCollection)"
| "fatal (Fetch u) = False"
| "fatal (CreateFile f p) = False"
| "fatal (Sleep ms) = False"

fun is_delete :: "call \<Rightarrow> bool" where
  "is_delete (DeleteDocument c i) = True"
| "is_delete (DeleteFile i) = True"
| "is_delete c = False"

text \<open>
  A trace stops after a fatal rejection: once a fatal call is rejected, nothing more is
  issued, except that a rejected deletion may be followed by the other deletions of
  its fan-out, which were issued together with it.
\<close>

fun stops_after_fatal :: "(call \<times> bool) list \<Rightarrow> bool" where
  "stops_after_fatal [] = True"
| "stops_after_fatal (r # rest) =
     (if fatal (fst r) \<and> \<not> snd r then
        (if is_delete (fst r) then
           list_all (\<lambda>r'. is_delete (fst r') \<and> phase_of (fst r') = phase_of (fst r)) rest
         else rest = [])
      else stops_after_fatal rest)"

text \<open>
  The trace that a step adds to the world \<open>w\<close>, summarised: its calls belong to phases
  between \<open>lo\<close> and \<open>hi\<close>, in ascending order; the trace stops after a fatal rejection;
  and the step succeeds only if each of its fatal calls was fulfilled.
\<close>

definition traced :: "nat \<Rightarrow> nat \<Rightarrow> (error + 'a) \<times> world \<Rightarrow> world \<Rightarrow> bool" where
  "traced lo hi rw w =
     (\<exists>cs. calls (snd rw) = calls w @ cs
        \<and> (\<forall>r \<in> set cs. lo \<le> phase_of (fst r) \<and> phase_of (fst r) \<le> hi)
        \<and> sorted (map (\<lambda>r. phase_of (fst r)) cs)
        \<and> stops_after_fatal cs
        \<and> (isl (fst rw) \<or> (\<forall>r \<in> set cs. fatal (fst r) \<longrightarrow> snd r)))"



section \<open>Properties of the string helpers\<close>

lemma includes_char: "str_includes s [c] = (c \<in> set s)"
  by (induction s) (auto simp: starts_with_def)

lemma split_on_not_Nil: "split_on c s \<noteq> []"
  by (induction s) (auto split: list.splits)

lemma split_on_no_sep: "c \<notin> set s \<Longrightarrow> split_on c s = [s]"
  by (induction s) auto

lemma toLowerCase_Nil_iff: "toLowerCase s = [] \<longleftrightarrow> s = []"
  by (simp add: toLowerCase_def)

lemma starts_with_set: "starts_with s p \<Longrightarrow> set p \<subseteq> set s"
  unfolding starts_with_def by (metis set_take_subset)

lemma includes_set: "str_includes s p \<Longrightarrow> set p \<subseteq> set s"
proof (induction s)
  case Nil
  then show ?case by simp
next
  case (Cons a s)
  then show ?case using starts_with_set [of "a # s" p] by auto
qed

section \<open>The image URL normaliser\<close>

text \<open>
  C10. For the empty image reference \<open>getImageUrl\<close> returns the empty string, not a
  constructed URL, and the card shows the placeholder glyph instead of an image,
  whatever the error flag.
\<close>

theorem getImageUrl_empty_placeholder:
  "getImageUrl cfg [] = [] \<and> menu_card_image cfg [] imageError = PlaceholderGlyph"
  by (simp add: getImageUrl_def menu_card_image_def)

text \<open>
  C7, as stated for every input string, fails at the empty string: the specification's
  four cases make it a bare file identifier (it holds no path separator) and build a
  view URL, or at least append the project parameter, whereas the source's first line
  returns the empty string.
\<close>

theorem getImageUrl_spec_differs_on_empty:
  "getImageUrl example_config [] = []
   \<and> getImageUrl_spec example_config []
       = ''https://cloud.appwrite.io/v1/storage/buckets/bkt/files//view?project=proj''
   \<and> getImageUrl example_config [] \<noteq> getImageUrl_spec example_config []"
  by (simp add: getImageUrl_def getImageUrl_spec_def has_network_scheme_def example_config_def
      starts_with_def)

text \<open>
  C7, amended: for every non-empty input string the source computes what the four
  cases of the specification say: pass-through for a full scheme, the project
  parameter appended to a view path that lacks it, the full view URL for a bare file
  identifier, and the parameter appended otherwise.
\<close>

theorem getImageUrl_nonempty_meets_spec:
  "url \<noteq> [] \<Longrightarrow> getImageUrl cfg url = getImageUrl_spec cfg url"
  using includes_set [of url "''/storage/buckets/''"]
  by (auto simp: getImageUrl_def getImageUrl_spec_def has_network_scheme_def includes_char)

theorem getImageUrl_nonempty_meets_spec_witness:
  "''abc123'' \<noteq> []
   \<and> getImageUrl example_config ''abc123'' = getImageUrl_spec example_config ''abc123''
   \<and> getImageUrl example_config ''abc123''
       = ''https://cloud.appwrite.io/v1/storage/buckets/bkt/files/abc123/view?project=proj''"
proof -
  have ne: "''abc123'' \<noteq> []" by simp
  have "getImageUrl_spec example_config ''abc123''
          = ''https://cloud.appwrite.io/v1/storage/buckets/bkt/files/abc123/view?project=proj''"
    by (simp add: getImageUrl_spec_def has_network_scheme_def example_config_def starts_with_def)
  with getImageUrl_nonempty_meets_spec [OF ne, of example_config] show ?thesis by simp
qed

section \<open>The file extension\<close>

text \<open>
  C6. The specification has the extension default to \<open>jpg\<close> whenever the URL path
  has no extension. The source's default is reached only when the piece after the last dot
  is empty; a path with no dot at all is popped whole, so the extension becomes the
  entire lower-cased path. At the path \<open>/images/photo\<close> the extension is
  \<open>/images/photo\<close>, not \<open>jpg\<close>, and the upload of such a URL stores a file whose
  name ends in \<open>./images/photo\<close>.
\<close>

theorem file_extension_without_dot:
  "CHR ''.'' \<notin> set ''/images/photo''
   \<and> file_extension ''/images/photo'' = ''/images/photo''
   \<and> file_extension ''/images/photo'' \<noteq> ''jpg''
   \<and> url_pathname reliable_env ''https://img.io/images/photo'' = Some ''/images/photo''
   \<and> map fst (calls (snd (uploadImageToStorage reliable_env ''https://img.io/images/photo'' 3
         empty_world)))
       = [Fetch ''https://img.io/images/photo'',
          CreateFile \<lparr>file_name = ''1701-k3x9q0zab./images/photo'', file_type = ''image/png'',
            file_size = 2048, file_uri = ''https://img.io/images/photo''\<rparr>
            [ReadAny, WriteAny]]"
proof -
  have ext: "file_extension ''/images/photo'' = ''/images/photo''"
    by (simp add: file_extension_def array_pop_def toLowerCase_def lower_char_def)
  have sp: "simple_pathname ''https://img.io/images/photo'' = Some ''/images/photo''"
    by (simp add: simple_pathname_def starts_with_def)
  then have path:
    "url_pathname reliable_env ''https://img.io/images/photo'' = Some ''/images/photo''"
    by (simp add: reliable_env_def)
  have "map fst (calls (snd (uploadImageToStorage reliable_env ''https://img.io/images/photo'' 3
         empty_world)))
       = [Fetch ''https://img.io/images/photo'',
          CreateFile \<lparr>file_name = ''1701-k3x9q0zab./images/photo'', file_type = ''image/png'',
            file_size = 2048, file_uri = ''https://img.io/images/photo''\<rparr>
            [ReadAny, WriteAny]]"
    by (simp add: uploadImageToStorage_def upload_loop.simps upload_attempt_def reliable_env_def
        sp ext starts_with_def createFile_def Let_def say_def issue_def tick_def empty_world_def
        decimal.simps digit_char_def)
  with ext path show ?thesis by simp
qed

lemma file_extension_no_dot: "CHR ''.'' \<notin> set p \<Longrightarrow> p \<noteq> [] \<Longrightarrow> file_extension p = toLowerCase p"
  by (simp add: file_extension_def array_pop_def split_on_no_sep toLowerCase_Nil_iff)

lemma file_extension_examples:
  "file_extension ''/images/Pizza.PNG'' = ''png''"
  "file_extension ''/images/photo.'' = ''jpg''"
  by code_simp+

section \<open>Frame lemmas: what logging and issuing change\<close>

lemma calls_say [simp]: "calls (say l m w) = calls w"
  by (simp add: say_def)

lemma calls_issue [simp]: "calls (issue c ok w) = calls w @ [(c, ok)]"
  by (simp add: issue_def)

lemma documents_say [simp]: "documents (say l m w) = documents w"
  by (simp add: say_def)

lemma documents_issue [simp]: "documents (issue c ok w) = documents w"
  by (simp add: issue_def)

lemma files_say [simp]: "files (say l m w) = files w"
  by (simp add: say_def)

lemma files_issue [simp]: "files (issue c ok w) = files w"
  by (simp add: issue_def)

lemma next_id_say [simp]: "next_id (say l m w) = next_id w"
  by (simp add: say_def)

lemma next_id_issue [simp]: "next_id (issue c ok w) = next_id w"
  by (simp add: issue_def)

lemma console_say [simp]: "console (say l m w) = console w @ [(l, m)]"
  by (simp add: say_def)

lemma console_issue [simp]: "console (issue c ok w) = console w"
  by (simp add: issue_def)

lemma tick_say [simp]: "tick (say l m w) = tick w"
  by (simp add: tick_def)

lemma tick_issue [simp]: "tick (issue c ok w) = Suc (tick w)"
  by (simp add: tick_def)

lemma new_calls_append [simp]: "calls w' = calls w @ cs \<Longrightarrow> new_calls w w' = cs"
  by (simp add: new_calls_def)

section \<open>Image upload\<close>

lemma upload_attempt_calls:
  "\<exists>cs. calls (snd (upload_attempt env url a r w)) = calls w @ cs
     \<and> (\<forall>c \<in> set cs. upload_call (fst c))"
  by (auto simp: upload_attempt_def Let_def createFile_def
      split: fetch_outcome.splits option.splits)

lemma upload_attempt_documents:
  "documents (snd (upload_attempt env url a r w)) = documents w"
  by (auto simp: upload_attempt_def Let_def createFile_def
      split: fetch_outcome.splits option.splits)

lemma upload_call_not_sleep: "upload_call c \<Longrightarrow> \<not> is_sleep c"
  by (cases c) auto

lemma upload_attempt_sleeps:
  assumes "upload_attempt env url a r w = (res, w')"
  shows "filter (\<lambda>c. is_sleep (fst c)) (calls w') = filter (\<lambda>c. is_sleep (fst c)) (calls w)"
proof -
  obtain cs where cs: "calls w' = calls w @ cs" "\<forall>c \<in> set cs. upload_call (fst c)"
    using upload_attempt_calls [of env url a r w] assms by auto
  then have "filter (\<lambda>c. is_sleep (fst c)) cs = []"
    by (auto simp: filter_empty_conv dest: upload_call_not_sleep)
  with cs show ?thesis by simp
qed

text \<open>
  C1. Let the URL be one for which every upload attempt fails, whatever the state of
  the world. Then \<open>uploadImageToStorage\<close> with three retries runs attempt 1, logs the
  failure and waits 2000 ms; runs attempt 2, logs and waits 4000 ms; runs attempt 3,
  and after its failure waits no more: it returns the original URL (the function has
  no error result). The waits of the whole call are exactly 2 and 4 seconds, in this
  order.
\<close>

theorem upload_all_attempts_fail:
  assumes fails: "\<And>a w'. isl (fst (upload_attempt env url a 3 w'))"
  shows "\<exists>e1 w1 e2 w2 e3 w3.
      upload_attempt env url 1 3 w = (Inl e1, w1)
    \<and> upload_attempt env url 2 3
          (issue (Sleep 2000) True (say LogLevel (WaitingBeforeRetry 2000)
            (say ErrorLevel (UploadAttemptFailed 1 e1) w1))) = (Inl e2, w2)
    \<and> upload_attempt env url 3 3
          (issue (Sleep 4000) True (say LogLevel (WaitingBeforeRetry 4000)
            (say ErrorLevel (UploadAttemptFailed 2 e2) w2))) = (Inl e3, w3)
    \<and> uploadImageToStorage env url 3 w
        = (url, say LogLevel (UsingOriginalUrl url)
                  (say ErrorLevel (AllUploadAttemptsFailed url)
                    (say ErrorLevel (UploadAttemptFailed 3 e3) w3)))
    \<and> filter (\<lambda>c. is_sleep (fst c)) (calls (snd (uploadImageToStorage env url 3 w)))
        = filter (\<lambda>c. is_sleep (fst c)) (calls w) @ [(Sleep 2000, True), (Sleep 4000, True)]"
proof -
  obtain e1 w1 where a1: "upload_attempt env url 1 3 w = (Inl e1, w1)"
    using fails [of 1 w] by (cases "upload_attempt env url 1 3 w") (auto simp: isl_def)
  let ?v1 = "issue (Sleep 2000) True (say LogLevel (WaitingBeforeRetry 2000)
          (say ErrorLevel (UploadAttemptFailed 1 e1) w1))"
  obtain e2 w2 where a2: "upload_attempt env url 2 3 ?v1 = (Inl e2, w2)"
    using fails [of 2 ?v1] by (cases "upload_attempt env url 2 3 ?v1") (auto simp: isl_def)
  let ?v2 = "issue (Sleep 4000) True (say LogLevel (WaitingBeforeRetry 4000)
          (say ErrorLevel (UploadAttemptFailed 2 e2) w2))"
  obtain e3 w3 where a3: "upload_attempt env url 3 3 ?v2 = (Inl e3, w3)"
    using fails [of 3 ?v2] by (cases "upload_attempt env url 3 3 ?v2") (auto simp: isl_def)
  let ?end = "say LogLevel (UsingOriginalUrl url) (say ErrorLevel (AllUploadAttemptsFailed url)
             (say ErrorLevel (UploadAttemptFailed 3 e3) w3))"
  have l3: "upload_loop env url 3 3 ?v2 = (url, ?end)"
    by (subst upload_loop.simps) (use a3 in simp)
  have l2: "upload_loop env url 3 2 ?v1 = upload_loop env url 3 3 ?v2"
    by (subst upload_loop.simps) (use a2 in simp)
  have l1: "upload_loop env url 3 1 w = upload_loop env url 3 2 ?v1"
    by (subst upload_loop.simps) (use a1 in \<open>simp add: numeral_2_eq_2\<close>)
  have res: "uploadImageToStorage env url 3 w = (url, ?end)"
    using l1 l2 l3 by (simp add: uploadImageToStorage_def)
  have "filter (\<lambda>c. is_sleep (fst c)) (calls ?end)
          = filter (\<lambda>c. is_sleep (fst c)) (calls w) @ [(Sleep 2000, True), (Sleep 4000, True)]"
    using upload_attempt_sleeps [OF a1] upload_attempt_sleeps [OF a2]
      upload_attempt_sleeps [OF a3] by simp
  with a1 a2 a3 res show ?thesis by simp
qed

theorem upload_all_attempts_fail_witness:
  "(\<forall>a w'. isl (fst (upload_attempt not_found_env ''https://example.com/pizza.png'' a 3 w')))
   \<and> fst (uploadImageToStorage not_found_env ''https://example.com/pizza.png'' 3 empty_world)
       = ''https://example.com/pizza.png''
   \<and> calls (snd (uploadImageToStorage not_found_env ''https://example.com/pizza.png'' 3
         empty_world))
       = [(Fetch ''https://example.com/pizza.png'', True), (Sleep 2000, True),
          (Fetch ''https://example.com/pizza.png'', True), (Sleep 4000, True),
          (Fetch ''https://example.com/pizza.png'', True)]"
proof -
  have att: "\<And>a w'. upload_attempt not_found_env ''https://example.com/pizza.png'' a 3 w'
      = (Inl (HttpError 404 ''Not Found''), issue (Fetch ''https://example.com/pizza.png'') True
           (say LogLevel (UploadingImage a 3 ''https://example.com/pizza.png'') w'))"
    by (simp add: upload_attempt_def not_found_env_def reliable_env_def starts_with_def Let_def)
  have fails:
    "\<And>a w'. isl (fst (upload_attempt not_found_env ''https://example.com/pizza.png'' a 3 w'))"
    by (simp add: att)
  from upload_all_attempts_fail
    [of not_found_env "''https://example.com/pizza.png''" empty_world, OF fails]
  show ?thesis
    using fails by (auto simp: att empty_world_def)
qed

text \<open>
  C5, as stated, fails at the string \<open>httpfoo\<close>: it is not empty and begins with no
  network scheme, yet it passes the validation, and a fetch is issued on each of the
  three attempts.
\<close>

theorem upload_validation_accepts_httpfoo:
  "''httpfoo'' \<noteq> [] \<and> \<not> has_network_scheme ''httpfoo''
   \<and> calls (snd (uploadImageToStorage unreachable_env ''httpfoo'' 3 empty_world))
       = [(Fetch ''httpfoo'', False), (Sleep 2000, True), (Fetch ''httpfoo'', False),
          (Sleep 4000, True), (Fetch ''httpfoo'', False)]"
proof -
  have att: "\<And>a w'. upload_attempt unreachable_env ''httpfoo'' a 3 w'
      = (Inl (CallFailed (Fetch ''httpfoo'')), issue (Fetch ''httpfoo'') False
           (say LogLevel (UploadingImage a 3 ''httpfoo'') w'))"
    by (simp add: upload_attempt_def unreachable_env_def reliable_env_def starts_with_def Let_def)
  have "calls (snd (upload_loop unreachable_env ''httpfoo'' 3 1 empty_world))
       = [(Fetch ''httpfoo'', False), (Sleep 2000, True), (Fetch ''httpfoo'', False),
          (Sleep 4000, True), (Fetch ''httpfoo'', False)]"
    by (simp add: upload_loop.simps att empty_world_def)
  then show ?thesis
    by (simp add: uploadImageToStorage_def has_network_scheme_def starts_with_def)
qed

text \<open>
  C5, amended: for every input string that is empty or does not begin with the four
  characters \<open>http\<close>, the validation fails on each of the three attempts, no fetch and
  no other request is issued (the only entries added to the trace are the two waits),
  the store is untouched, and the routine returns the input unchanged.
\<close>

theorem upload_invalid_url:
  assumes "url = [] \<or> \<not> starts_with url ''http''"
  shows "uploadImageToStorage env url 3 w =
    (url,
     w\<lparr>calls := calls w @ [(Sleep 2000, True), (Sleep 4000, True)],
       console := console w @
         [(LogLevel, UploadingImage 1 3 url),
          (ErrorLevel, UploadAttemptFailed 1 (InvalidImageUrl url)),
          (LogLevel, WaitingBeforeRetry 2000),
          (LogLevel, UploadingImage 2 3 url),
          (ErrorLevel, UploadAttemptFailed 2 (InvalidImageUrl url)),
          (LogLevel, WaitingBeforeRetry 4000),
          (LogLevel, UploadingImage 3 3 url),
          (ErrorLevel, UploadAttemptFailed 3 (InvalidImageUrl url)),
          (ErrorLevel, AllUploadAttemptsFailed url),
          (LogLevel, UsingOriginalUrl url)]\<rparr>)"
proof -
  have att: "\<And>a w'. upload_attempt env url a 3 w'
      = (Inl (InvalidImageUrl url), say LogLevel (UploadingImage a 3 url) w')"
    using assms by (auto simp: upload_attempt_def Let_def)
  show ?thesis
    by (simp add: uploadImageToStorage_def upload_loop.simps att say_def issue_def)
qed

theorem upload_invalid_url_witness:
  "(''ftp://example.com/a.png'' = [] \<or> \<not> starts_with ''ftp://example.com/a.png'' ''http'')
   \<and> fst (uploadImageToStorage reliable_env ''ftp://example.com/a.png'' 3 empty_world)
       = ''ftp://example.com/a.png''
   \<and> calls (snd (uploadImageToStorage reliable_env ''ftp://example.com/a.png'' 3 empty_world))
       = [(Sleep 2000, True), (Sleep 4000, True)]"
proof -
  have h: "''ftp://example.com/a.png'' = [] \<or> \<not> starts_with ''ftp://example.com/a.png'' ''http''"
    by (simp add: starts_with_def)
  from upload_invalid_url [OF h, of reliable_env empty_world] h show ?thesis
    by (simp add: empty_world_def)
qed

lemma upload_loop_frame:
  "documents (snd (upload_loop env url r a w)) = documents w"
proof (induction env url r a w rule: upload_loop.induct)
  case (1 env imageUrl retries attempt w)
  show ?case
  proof (cases "upload_attempt env imageUrl attempt retries w")
    case (Pair res w1)
    then have d1: "documents w1 = documents w"
      using upload_attempt_documents [of env imageUrl attempt retries w] by simp
    show ?thesis
    proof (cases res)
      case (Inr v)
      with Pair d1 show ?thesis by (subst upload_loop.simps) simp
    next
      case (Inl e)
      show ?thesis
      proof (cases "attempt \<le> retries \<and> attempt \<noteq> retries")
        case True
        then have le: "attempt \<le> retries" and ne: "attempt \<noteq> retries" by auto
        note IH = "1.IH" [OF le Pair [symmetric] Inl refl ne refl refl]
        with Pair Inl d1 le ne show ?thesis
          by (subst upload_loop.simps) (simp add: Let_def)
      next
        case False
        with Pair Inl d1 show ?thesis by (subst upload_loop.simps) (auto simp: Let_def)
      qed
    qed
  qed
qed

lemma uploadImageToStorage_documents:
  "documents (snd (uploadImageToStorage env url r w)) = documents w"
  by (simp add: uploadImageToStorage_def upload_loop_frame)

section \<open>The menu phase\<close>

text \<open>
  The upload comes first. When the category check of an item throws (the lookup of
  its category name yields \<open>undefined\<close>), the round of the menu loop has run the whole
  upload (three attempts at most, with whatever it stored in the bucket): its world is
  the world the upload left, with one more console line; no document has been created
  or removed; and the loop stops at this item with the error. A file that the upload
  stored stays in the bucket with no menu record pointing at it, as the example after
  the lemma shows on a host that serves the image.
\<close>

lemma menu_round_category_check_throws:
  assumes "\<not> truthy (js_get categoryMap (category_name item))"
  shows "seed_menu_item env categoryMap customizationMap menuMap i n item w =
      (Inl (CategoryNotFound (category_name item)),
       say ErrorLevel
         (FailedToCreateMenuItem (item_name item) (CategoryNotFound (category_name item)))
         (snd (uploadImageToStorage env (image_url item) 3
            (say LogLevel (ProcessingMenuItem (i + 1) n (item_name item)) w))))
    \<and> documents (snd (seed_menu_item env categoryMap customizationMap menuMap i n item w))
        = documents w
    \<and> create_menu_items env categoryMap customizationMap i n (item # items) menuMap w
        = seed_menu_item env categoryMap customizationMap menuMap i n item w"
proof -
  have step: "seed_menu_item env categoryMap customizationMap menuMap i n item w =
      (Inl (CategoryNotFound (category_name item)),
       say ErrorLevel
         (FailedToCreateMenuItem (item_name item) (CategoryNotFound (category_name item)))
         (snd (uploadImageToStorage env (image_url item) 3
            (say LogLevel (ProcessingMenuItem (i + 1) n (item_name item)) w))))"
    using assms by (simp add: seed_menu_item_def menu_item_try_def split: prod.splits)
  then show ?thesis
    by (simp add: uploadImageToStorage_documents)
qed

lemma menu_round_category_check_throws_example:
  "\<not> truthy (js_get [] (category_name margherita))
   \<and> fst (seed_menu_item reliable_env [] [] [] 0 1 margherita empty_world)
       = Inl (CategoryNotFound ''Pizzas'')
   \<and> map fst (calls (snd (seed_menu_item reliable_env [] [] [] 0 1 margherita empty_world)))
       = [Fetch ''https://img.io/m.png'',
          CreateFile \<lparr>file_name = ''1701-k3x9q0zab.png'', file_type = ''image/png'',
            file_size = 2048, file_uri = ''https://img.io/m.png''\<rparr>
            [ReadAny, WriteAny]]
   \<and> map fst (files (snd (seed_menu_item reliable_env [] [] [] 0 1 margherita empty_world)))
       = [0]
   \<and> documents (snd (seed_menu_item reliable_env [] [] [] 0 1 margherita empty_world))
        MenuCollection = []"
proof -
  have h: "\<not> truthy (js_get [] (category_name margherita))"
    by (simp add: js_get_def margherita_def object_prototype_names_def)
  have dec: "decimal 1701 = ''1701''"
    by (simp add: decimal.simps digit_char_def)
  have ext: "file_extension ''/m.png'' = ''png''"
    by code_simp
  have up: "uploadImageToStorage reliable_env ''https://img.io/m.png'' 3
          (say LogLevel (ProcessingMenuItem 1 1 ''Margherita'') empty_world)
      = (''https://store.io/files/0/view'',
         \<lparr>documents = (\<lambda>coll. []),
          files = [(0, \<lparr>file_name = ''1701-k3x9q0zab.png'', file_type = ''image/png'',
            file_size = 2048, file_uri = ''https://img.io/m.png''\<rparr>,
            [ReadAny, WriteAny])],
          next_id = 1,
          calls = [(Fetch ''https://img.io/m.png'', True),
            (CreateFile \<lparr>file_name = ''1701-k3x9q0zab.png'', file_type = ''image/png'',
               file_size = 2048, file_uri = ''https://img.io/m.png''\<rparr>
               [ReadAny, WriteAny], True)],
          console = [(LogLevel, ProcessingMenuItem 1 1 ''Margherita''),
            (LogLevel, UploadingImage 1 3 ''https://img.io/m.png''),
            (LogLevel, FileInfo ''1701-k3x9q0zab.png'' ''image/png'' 2048),
            (LogLevel, ImageUploaded ''1701-k3x9q0zab.png'')]\<rparr>)"
    by (simp add: uploadImageToStorage_def upload_loop.simps upload_attempt_def reliable_env_def
        simple_pathname_def starts_with_def createFile_def Let_def say_def issue_def tick_def
        empty_world_def dec ext decimal.simps [of 0] digit_char_def)
  from menu_round_category_check_throws [OF h, of reliable_env "[]" "[]" 0 1 empty_world] h
  show ?thesis
    using up by (simp add: margherita_def empty_world_def)
qed

section \<open>What each step does to the documents\<close>











lemma createDocument_failed:
  "createDocument env coll payload w = (Inl e, w') \<Longrightarrow> documents w' = documents w"
  by (auto simp: createDocument_def Let_def split: if_splits)














section \<open>Lookups that find what was never stored\<close>

lemmas run_defs =
  seed_def seed_try_def clearAll_def clearStorage_def listDocuments_def listFiles_def
  promise_all_def createDocument_def createFile_def deleteDocument_def deleteFile_def
  seed_menu_item_def menu_item_try_def uploadImageToStorage_def upload_loop.simps
  upload_attempt_def js_get_def js_set_def object_prototype_names_def Let_def tick_def
  starts_with_def simple_pathname_def say_def issue_def decimal.simps digit_char_def

lemmas example_defs =
  reliable_env_def empty_world_def small_data_def plain_margherita_def margherita_def
  pizzas_def extra_cheese_def

lemma js_get_Undefined_iff:
  "js_get m n = Undefined \<longleftrightarrow> n \<notin> fst ` set m \<and> n \<notin> set object_prototype_names"
proof (cases "map_of m n")
  case None
  then have "n \<notin> fst ` set m" by (simp add: map_of_eq_None_iff)
  with None show ?thesis by (simp add: js_get_def)
next
  case (Some v)
  then have "(n, v) \<in> set m" by (rule map_of_SomeD)
  then have "n \<in> fst ` set m" by force
  with Some show ?thesis by (simp add: js_get_def)
qed

lemma js_get_inherited:
  "n \<in> set object_prototype_names \<Longrightarrow> n \<notin> fst ` set m \<Longrightarrow> js_get m n = Inherited n"
  by (simp add: js_get_def map_of_eq_None_iff [symmetric])

lemma link_customizations_unresolved:
  "js_get cm n = Undefined
    \<Longrightarrow> link_customizations env cm itemName docId (n # names) w
        = link_customizations env cm itemName docId names
            (say WarnLevel (CustomizationNotFound n) w)"
  by simp

text \<open>
  C2. A menu item whose category name is \<open>constructor\<close>, in a dataset with no such
  category: the lookup \<open>categoryMap[item.category_name]\<close> finds the member every object
  inherits, the check does not throw, the run completes, and the menu record is
  created, its category field holding the inherited member instead of an identifier.
\<close>

theorem seed_constructor_category:
  "''constructor'' \<notin> set (map cat_name (data_categories constructor_data))
   \<and> (case seed reliable_env constructor_data empty_world of
        (result, w) \<Rightarrow>
          result = Inr ()
          \<and> map snd (documents w MenuCollection)
              = [MenuDocument ''Margherita'' ''Classic'' [] 9 4 800 30
                   (Inherited ''constructor'')])"
  by (simp add: constructor_data_def run_defs example_defs)

text \<open>
  C3. A menu item that lists the customization name \<open>toString\<close>, in a dataset with no
  such customization: the same inherited member makes the lookup truthy, no warning
  is logged, and a join record is created for the name that resolves to nothing,
  beside the one for the customization that exists.
\<close>

theorem seed_toString_customization:
  "''toString'' \<notin> set (map cus_name (data_customizations toString_data))
   \<and> (case seed reliable_env toString_data empty_world of
        (result, w) \<Rightarrow>
          result = Inr ()
          \<and> map snd (documents w MenuCustomizationsCollection)
              = [MenuCustomizationDocument 2 (Inherited ''toString''),
                 MenuCustomizationDocument 2 (IdString 1)]
          \<and> (WarnLevel, CustomizationNotFound ''toString'') \<notin> set (console w))"
  by (simp add: toString_data_def run_defs example_defs)

lemma simple_pathname_m_png: "simple_pathname ''https://img.io/m.png'' = Some ''/m.png''"
  by (simp add: simple_pathname_def starts_with_def)

lemma file_extension_m_png: "file_extension ''/m.png'' = ''png''"
  by code_simp

lemmas upload_run_defs =
  seed_def seed_try_def clearAll_def clearStorage_def listDocuments_def listFiles_def
  promise_all_def createDocument_def createFile_def deleteDocument_def deleteFile_def
  seed_menu_item_def menu_item_try_def uploadImageToStorage_def upload_loop.simps
  upload_attempt_def js_get_def js_set_def object_prototype_names_def Let_def tick_def
  starts_with_def say_def issue_def decimal.simps digit_char_def
  simple_pathname_m_png file_extension_m_png

text \<open>
  C9. A menu item whose category name resolves to no category, on a store and a host
  that never fail: the item's category name is \<open>constructor\<close> and the dataset has no such
  category. The upload does come first and stores the image (file 2). But the check
  that follows it, \<open>!categoryMap[item.category_name]\<close>, finds the member every object
  inherits and does not throw: the run is not aborted, it completes, and the stored
  file is not orphaned, since the menu record that is then created points at it.
\<close>

theorem seed_constructor_upload_kept:
  "''constructor'' \<notin> set (map cat_name (data_categories constructor_image_data))
   \<and> (case seed reliable_env constructor_image_data empty_world of
        (result, w) \<Rightarrow>
          result = Inr ()
          \<and> map fst (calls w)
              = [ListDocuments CategoriesCollection, ListDocuments CustomizationsCollection,
                 ListDocuments MenuCollection, ListDocuments MenuCustomizationsCollection,
                 ListFiles,
                 CreateDocument CategoriesCollection (CategoryDocument pizzas),
                 CreateDocument CustomizationsCollection
                   (CustomizationDocument ''Extra Cheese'' 2 ''topping''),
                 Fetch ''https://img.io/m.png'',
                 CreateFile \<lparr>file_name = ''1708-k3x9q0zab.png'', file_type = ''image/png'',
                   file_size = 2048, file_uri = ''https://img.io/m.png''\<rparr>
                   [ReadAny, WriteAny],
                 CreateDocument MenuCollection
                   (MenuDocument ''Margherita'' ''Classic'' ''https://store.io/files/2/view''
                      9 4 800 30 (Inherited ''constructor'')),
                 CreateDocument MenuCustomizationsCollection
                   (MenuCustomizationDocument 3 (IdString 1))]
          \<and> map fst (files w) = [2]
          \<and> file_view_url reliable_env 2 = ''https://store.io/files/2/view''
          \<and> map snd (documents w MenuCollection)
              = [MenuDocument ''Margherita'' ''Classic'' ''https://store.io/files/2/view''
                   9 4 800 30 (Inherited ''constructor'')])"
  by (simp add: constructor_image_data_def upload_run_defs example_defs)

section \<open>The end state of a run that completes\<close>







section \<open>The order of the calls of a run\<close>




lemma traced_say [simp]: "traced lo hi rw (say l m w) = traced lo hi rw w"
  by (simp add: traced_def)

lemma traced_say_result [simp]: "traced lo hi (r, say l m w') w = traced lo hi (r, w') w"
  by (simp add: traced_def)






























end
